theory Spec2Isabelle
  imports Main "HOL-Library.Word"
begin

section \<open>The OpenCode Sentry plugin (src/index.ts)\<close>

text \<open>
  The plugin is one TypeScript function, \<open>createSentryPlugin\<close>. It reads the
  \<open>TRACEPARENT\<close> environment variable, patches the context manager of the tracing
  runtime, registers a handler for starting spans and returns the hooks the host calls
  on its events. Each of these parts is a definition below, in the order of the source.
\<close>

subsection \<open>Splitting the trace header\<close>

text \<open>
  \<open>traceparent.split('-')\<close>: the segments between the separators, an empty segment
  before a leading, after a trailing and between two adjacent separators. A string with
  \<open>n\<close> separators has \<open>n + 1\<close> segments, and the empty string has the one segment
  \<open>''''\<close>.
\<close>

fun split :: "char \<Rightarrow> string \<Rightarrow> string list" where
  "split sep [] = [[]]"
| "split sep (c # cs) =
     (if c = sep then [] # split sep cs
      else (case split sep cs of
              [] \<Rightarrow> [[c]]
            | p # ps \<Rightarrow> (c # p) # ps))"

subsection \<open>JavaScript values\<close>

text \<open>
  Several values the plugin receives are untyped (\<open>any\<close>) and are tested for
  truthiness: the error payload of an event, the attributes of a span. \<open>JNum\<close> holds
  an integral number from \<open>-2^53\<close> to \<open>2^53 - 1\<close>, the range in which a double
  holds every integer exactly and \<open>String\<close> writes it digit by digit; fractions,
  \<open>NaN\<close>, the infinities and larger magnitudes are not among the values. \<open>JError m\<close>
  is an instance of \<open>Error\<close> with the message \<open>m\<close>; \<open>JObject s\<close> is any other
  object, \<open>s\<close> being what its \<open>toString()\<close> returns.
\<close>

datatype js_value =
    JUndefined
  | JNull
  | JBool bool
  | JNum "54 word"
  | JStr string
  | JError string
  | JObject string

fun truthy :: "js_value \<Rightarrow> bool" where
  "truthy JUndefined = False"
| "truthy JNull = False"
| "truthy (JBool b) = b"
| "truthy (JNum n) = (n \<noteq> 0)"
| "truthy (JStr s) = (s \<noteq> [])"
| "truthy (JError m) = True"
| "truthy (JObject s) = True"

text \<open>\<open>error instanceof Error\<close>.\<close>

fun instanceof_Error :: "js_value \<Rightarrow> bool" where
  "instanceof_Error (JError m) = True"
| "instanceof_Error v = False"

text \<open>The decimal digits of a natural number, most significant first.\<close>

fun digits :: "nat \<Rightarrow> string" where
  "digits n =
     (if n < 10 then [char_of (48 + n)]
      else digits (n div 10) @ [char_of (48 + n mod 10)])"

text \<open>
  \<open>String(v)\<close>, the conversion of a value to a string. A number of the range above is
  written as its sign and its decimal digits.
\<close>

fun String_js :: "js_value \<Rightarrow> string" where
  "String_js JUndefined = ''undefined''"
| "String_js JNull = ''null''"
| "String_js (JBool b) = (if b then ''true'' else ''false'')"
| "String_js (JNum n) =
     (if sint n < 0 then CHR ''-'' # digits (nat (- sint n)) else digits (nat (sint n)))"
| "String_js (JStr s) = s"
| "String_js (JError m) = (if m = [] then ''Error'' else ''Error: '' @ m)"
| "String_js (JObject s) = s"

text \<open>\<open>a || b\<close> on values, and the read of a property that may be missing.\<close>

definition or_js :: "js_value \<Rightarrow> js_value \<Rightarrow> js_value" where
  "or_js a b = (if truthy a then a else b)"

definition get_prop :: "(string \<rightharpoonup> js_value) \<Rightarrow> string \<Rightarrow> js_value" where
  "get_prop obj k = (case obj k of None \<Rightarrow> JUndefined | Some v \<Rightarrow> v)"

text \<open>\<open>obj?.k\<close>: \<open>undefined\<close> when the object itself is missing.\<close>

definition opt_get :: "(string \<rightharpoonup> js_value) option \<Rightarrow> string \<Rightarrow> js_value" where
  "opt_get obj k = (case obj of None \<Rightarrow> JUndefined | Some m \<Rightarrow> get_prop m k)"

subsection \<open>Parsing TRACEPARENT (lines 124 to 136)\<close>

text \<open>
  The three variables the source declares before parsing: \<open>parentTraceId\<close> and
  \<open>parentSpanId\<close> are \<open>undefined\<close> (\<open>None\<close>) until assigned, \<open>sampled\<close> starts
  as \<open>true\<close>.
\<close>

record trace_vars =
  parentTraceId :: "string option"
  parentSpanId :: "string option"
  sampled :: bool

definition initial_vars :: trace_vars where
  "initial_vars = \<lparr>parentTraceId = None, parentSpanId = None, sampled = True\<rparr>"

text \<open>
  \<open>if (traceparent)\<close> is false for an absent variable and for the empty string.
  The indices 1, 2 and 3 are read only from a list of length 4, so every read is in
  range.
\<close>

definition parse_traceparent :: "string option \<Rightarrow> trace_vars" where
  "parse_traceparent traceparent =
     (case traceparent of
        None \<Rightarrow> initial_vars
      | Some tp \<Rightarrow>
          if tp = [] then initial_vars
          else (let parts = split (CHR ''-'') tp in
                if length parts = 4 then
                  \<lparr>parentTraceId = Some (parts ! 1), parentSpanId = Some (parts ! 2),
                   sampled = (parts ! 3 = ''01'')\<rparr>
                else initial_vars))"

subsection \<open>The tracing API used by the patch\<close>

text \<open>
  The plugin calls four operations of the OpenTelemetry API, a library outside this
  repository: \<open>trace.setSpanContext\<close>, \<open>trace.getSpan\<close>, \<open>context.active\<close> and
  the context manager's \<open>active\<close>. A context is an immutable table with one slot for the span; what else it
  holds is carried along untouched. \<open>setSpanContext\<close> stores a non-recording span that
  wraps the given span context, \<open>getSpan\<close> reads the slot.
\<close>

datatype trace_flags = NONE | SAMPLED

record span_context =
  traceId :: string
  spanId :: string
  traceFlags :: trace_flags
  isRemote :: bool

datatype otel_span = NonRecordingSpan span_context | SdkSpan span_context

fun spanContext :: "otel_span \<Rightarrow> span_context" where
  "spanContext (NonRecordingSpan sc) = sc"
| "spanContext (SdkSpan sc) = sc"

record otel_context =
  span_value :: "otel_span option"
  other_values :: "(string \<times> string) list"

definition getSpan :: "otel_context \<Rightarrow> otel_span option" where
  "getSpan c = span_value c"

definition setSpanContext :: "otel_context \<Rightarrow> span_context \<Rightarrow> otel_context" where
  "setSpanContext c sc = c\<lparr>span_value := Some (NonRecordingSpan sc)\<rparr>"

text \<open>
  The context manager is an object: \<open>active\<close> reads the ambient state \<open>'s\<close> of the
  running code (which span scopes are open), \<open>with\<close> is typed \<open>unknown\<close> by the
  source and only tested for truthiness, \<open>None\<close> standing for a missing or falsy
  property. The plugin assigns to a field of the object, so the managers live in a store
  and the API object refers to them by address: \<open>_getContextManager\<close> is a missing
  function (\<open>None\<close>) or one that returns a manager or \<open>undefined\<close>,
  \<open>_contextManager\<close> is a manager or missing. The fields of a manager other than
  these two (\<open>enable\<close>, \<open>disable\<close>, \<open>bind\<close> in the usual implementations) are the
  record's extension \<open>'z\<close>.
\<close>

record ('s, 'w) context_manager =
  active :: "'s \<Rightarrow> otel_context"
  with_op :: "'w option"

type_synonym ref = nat

record ('s, 'w, 'z) otel_api =
  private_getContextManager :: "ref option option"
  private_contextManager :: "ref option"
  store :: "ref \<rightharpoonup> ('s, 'w, 'z) context_manager_scheme"

text \<open>A call \<open>contextManager.active()\<close> on the manager at an address, in an ambient state.\<close>

definition call_active :: "('s, 'w, 'z) otel_api \<Rightarrow> ref \<Rightarrow> 's \<Rightarrow> otel_context option" where
  "call_active api r s = (case store api r of None \<Rightarrow> None | Some cm \<Rightarrow> Some (active cm s))"

text \<open>
  \<open>otel.context.active()\<close>, the operation of the API object, is the library's
  \<open>return this._getContextManager().active()\<close>. It has no guard of its own: it raises
  a \<open>TypeError\<close> when \<open>_getContextManager\<close> is missing (a call of \<open>undefined\<close>)
  and when that function returns \<open>undefined\<close> (a read of \<open>active\<close> from
  \<open>undefined\<close>). An address with no object in the store does not occur in a running
  program; it is treated as a missing manager.
\<close>

datatype js_error = TypeError

definition context_active :: "('s, 'w, 'z) otel_api \<Rightarrow> 's \<Rightarrow> js_error + otel_context" where
  "context_active api s =
     (case private_getContextManager api of
        None \<Rightarrow> Inl TypeError
      | Some None \<Rightarrow> Inl TypeError
      | Some (Some r) \<Rightarrow>
          (case store api r of
             None \<Rightarrow> Inl TypeError
           | Some cm \<Rightarrow> Inr (active cm s)))"

subsection \<open>Installing the patch (lines 167 to 193)\<close>

text \<open>\<open>parentTraceId && parentSpanId\<close>: both defined and both non-empty.\<close>

definition truthy_str :: "string option \<Rightarrow> bool" where
  "truthy_str v = (case v of None \<Rightarrow> False | Some s \<Rightarrow> s \<noteq> [])"

text \<open>The object \<open>parentContext\<close> of line 168, built only inside the guard of line 167.\<close>

definition parentContext :: "trace_vars \<Rightarrow> span_context option" where
  "parentContext v =
     (if truthy_str (parentTraceId v) \<and> truthy_str (parentSpanId v) then
        (case (parentTraceId v, parentSpanId v) of
           (Some t, Some s) \<Rightarrow>
             Some \<lparr>traceId = t, spanId = s,
                   traceFlags = (if sampled v then SAMPLED else NONE),
                   isRemote = True\<rparr>
         | _ \<Rightarrow> None)
      else None)"

text \<open>\<open>otelContext._getContextManager?.() || otelContext._contextManager\<close>.\<close>

definition locate :: "('s, 'w, 'z) otel_api \<Rightarrow> ref option" where
  "locate api =
     (case private_getContextManager api of
        Some (Some r) \<Rightarrow> Some r
      | _ \<Rightarrow> private_contextManager api)"

text \<open>The function assigned to \<open>contextManager.active\<close> at line 188.\<close>

definition patched_active ::
  "('s \<Rightarrow> otel_context) \<Rightarrow> otel_context \<Rightarrow> 's \<Rightarrow> otel_context" where
  "patched_active originalActive rootContext s =
     (let current = originalActive s in
      if getSpan current \<noteq> None then current else rootContext)"

text \<open>
  The body of the guard of line 167, run in the ambient state \<open>s\<close>. The call
  \<open>otel.context.active()\<close> of line 175 comes first, before the manager is looked up
  with \<open>?.\<close>: when it raises, the exception leaves the function (\<open>Inl\<close>) and
  nothing has been assigned. Otherwise the result is the API object after the
  assignment of line 188, or as it was when the assignment is skipped.
\<close>

definition install_patch ::
  "trace_vars \<Rightarrow> 's \<Rightarrow> ('s, 'w, 'z) otel_api \<Rightarrow> js_error + ('s, 'w, 'z) otel_api" where
  "install_patch v s api =
     (case parentContext v of
        None \<Rightarrow> Inr api
      | Some pc \<Rightarrow>
          (case context_active api s of
             Inl e \<Rightarrow> Inl e
           | Inr ambient \<Rightarrow>
               (let ctx = setSpanContext ambient pc in
                case locate api of
                  None \<Rightarrow> Inr api
                | Some r \<Rightarrow>
                    (case store api r of
                       None \<Rightarrow> Inr api
                     | Some contextManager \<Rightarrow>
                         if with_op contextManager \<noteq> None then
                           Inr (api\<lparr>store := (store api)(r \<mapsto>
                                  contextManager\<lparr>active :=
                                    patched_active (active contextManager) ctx\<rparr>)\<rparr>)
                         else Inr api))))"

subsection \<open>The spanStart handler (lines 196 to 214)\<close>

text \<open>
  A span as the handler sees it: a name that may be missing and its attributes. A
  missing \<open>attributes\<close> object reads as the empty table, as \<open>span.attributes || {}\<close>
  makes it. \<open>setAttribute\<close> is the SDK's: it stores the value under the key.
\<close>

record span =
  name :: "string option"
  attributes :: "string \<rightharpoonup> js_value"

definition setAttribute :: "span \<Rightarrow> string \<Rightarrow> js_value \<Rightarrow> span" where
  "setAttribute sp k v = sp\<lparr>attributes := (attributes sp)(k \<mapsto> v)\<rparr>"

definition spanStart :: "span \<Rightarrow> span" where
  "spanStart sp =
     (let spanName = (case name sp of None \<Rightarrow> [] | Some n \<Rightarrow> if n \<noteq> [] then n else [])
      in
      if spanName = ''ai.streamText.doStream'' \<or> spanName = ''ai.generateText.doGenerate''
      then
        (let sp1 = setAttribute sp ''sentry.op'' (JStr ''gen_ai.chat'');
             attrs = attributes sp1;
             model = or_js (get_prop attrs ''ai.model.id'') (get_prop attrs ''gen_ai.request.model'');
             provider = or_js (get_prop attrs ''ai.model.provider'') (get_prop attrs ''gen_ai.system'');
             sp2 = (if truthy model then setAttribute sp1 ''gen_ai.request.model'' model
                    else sp1);
             sp3 = (if truthy provider then setAttribute sp2 ''gen_ai.system'' provider
                    else sp2)
         in sp3)
      else sp)"

subsection \<open>createSentryPlugin, from the trace header to the registered handler\<close>

text \<open>
  The inputs are the environment, the ambient state in which the function runs, the API
  object as \<open>Sentry.init\<close> left it, and whether \<open>Sentry.getClient()\<close> returns a
  client. The result is the API object afterwards, the handlers registered on the
  client, and the exception the function raised, if any. An exception raised at line 175
  ends the function there: the API object is as it was, line 199 is not reached and no
  handler is registered.
\<close>

record ('s, 'w, 'z) plugin_setup =
  api_after :: "('s, 'w, 'z) otel_api"
  client_handlers :: "(string \<times> (span \<Rightarrow> span)) list"
  raised :: "js_error option"

definition createSentryPlugin ::
  "(string \<rightharpoonup> string) \<Rightarrow> 's \<Rightarrow> ('s, 'w, 'z) otel_api \<Rightarrow> bool
     \<Rightarrow> ('s, 'w, 'z) plugin_setup" where
  "createSentryPlugin env s api client =
     (let traceparent = env ''TRACEPARENT'';
          v = parse_traceparent traceparent
      in case install_patch v s api of
           Inl e \<Rightarrow> \<lparr>api_after = api, client_handlers = [], raised = Some e\<rparr>
         | Inr api' \<Rightarrow>
             \<lparr>api_after = api',
              client_handlers = (if client then [(''spanStart'', spanStart)] else []),
              raised = None\<rparr>)"

subsection \<open>The hooks (lines 227 to 288)\<close>

text \<open>
  Every hook only calls the SDK; the model returns the calls it makes, in order. The
  hooks are async functions. Only the event hook awaits anything, and only on
  session.idle: the promise of \<open>Sentry.flush(2000)\<close>, after which it does nothing
  more. \<open>Sentry.flush\<close> belongs to the SDK and is a parameter: \<open>flush timeout\<close> is
  the time, in milliseconds, that the promise of \<open>Sentry.flush(timeout)\<close> takes to
  settle, \<open>None\<close> when it never settles. \<open>settles\<close> is the same for the promise of
  the hook, counted from the call of the hook. The hook sets no timer of its own.
\<close>

datatype crumb_data = NoData | SessionData js_value | ToolData string "string list"

record breadcrumb =
  category :: string
  message :: string
  level :: string
  data :: crumb_data

datatype sentry_call =
    AddBreadcrumb breadcrumb
  | CaptureException js_value "(string \<times> string) list"
  | Flush nat



text \<open>\<open>error instanceof Error ? error : new Error(String(error))\<close>.\<close>

definition to_exception :: "js_value \<Rightarrow> js_value" where
  "to_exception error = (if instanceof_Error error then error else JError (String_js error))"


record tool_input =
  tool :: string

text \<open>
  \<open>args\<close> lists the entries of \<open>output.args\<close> in the order in which
  \<open>Object.keys\<close> enumerates them.
\<close>

record tool_before_output =
  args :: "(string \<times> js_value) list option"

record tool_after_output =
  metadata :: "(string \<rightharpoonup> js_value) option"

definition tool_execute_before :: "tool_input \<Rightarrow> tool_before_output \<Rightarrow> sentry_call list" where
  "tool_execute_before input output =
     [AddBreadcrumb \<lparr>category = ''tool'', message = ''Tool: '' @ tool input,
                     level = ''info'',
                     data = ToolData (tool input)
                              (map fst (case args output of None \<Rightarrow> [] | Some a \<Rightarrow> a))\<rparr>]"

definition tool_execute_after :: "tool_input \<Rightarrow> tool_after_output \<Rightarrow> sentry_call list" where
  "tool_execute_after input output =
     (let error = opt_get (metadata output) ''error'' in
      if truthy error then
        [CaptureException (to_exception error)
           [(''source'', ''tool.execute''), (''tool'', tool input)]]
      else [])"

subsection \<open>The rule of the specification for the copied attributes\<close>

text \<open>
  The specification's words for the model and provider attributes: of the two source
  attributes the first present one wins, and absent sources leave the destination
  unset. This follows the specification, not the source, and is compared with
  \<open>spanStart\<close> below.
\<close>

definition first_present_source ::
  "(string \<rightharpoonup> js_value) \<Rightarrow> string \<Rightarrow> string \<Rightarrow> js_value option" where
  "first_present_source attrs a b = (case attrs a of Some v \<Rightarrow> Some v | None \<Rightarrow> attrs b)"

subsection \<open>Concrete inputs\<close>

text \<open>
  A manager whose \<open>active\<close> returns a context with a locally created span when the
  ambient state is \<open>True\<close> and without one when it is \<open>False\<close>; an API object whose
  \<open>_getContextManager\<close> returns the manager at address 0, which has a \<open>with\<close>,
  and whose \<open>_contextManager\<close> is the manager at address 1, which has none.
\<close>

definition example_span :: otel_span where
  "example_span =
     SdkSpan \<lparr>traceId = ''t'', spanId = ''s'', traceFlags = SAMPLED, isRemote = False\<rparr>"

definition example_active :: "bool \<Rightarrow> otel_context" where
  "example_active s =
     \<lparr>span_value = (if s then Some example_span else None),
      other_values = [(''k'', ''v'')]\<rparr>"

definition example_api :: "(bool, string, unit) otel_api" where
  "example_api =
     \<lparr>private_getContextManager = Some (Some 0), private_contextManager = Some 1,
      store = [0 \<mapsto> \<lparr>active = example_active, with_op = Some ''with''\<rparr>,
               1 \<mapsto> \<lparr>active = example_active, with_op = None\<rparr>]\<rparr>"

text \<open>An API object whose \<open>_getContextManager\<close> returns a manager without \<open>with\<close>.\<close>

definition example_api_no_with :: "(bool, string, unit) otel_api" where
  "example_api_no_with =
     \<lparr>private_getContextManager = Some (Some 1), private_contextManager = None,
      store = [1 \<mapsto> \<lparr>active = example_active, with_op = None\<rparr>]\<rparr>"


text \<open>Two spans of the instrumented name, one with an empty model identifier.\<close>

definition example_span_empty_model :: span where
  "example_span_empty_model =
     \<lparr>name = Some ''ai.streamText.doStream'',
      attributes = [''ai.model.id'' \<mapsto> JStr [],
                    ''gen_ai.request.model'' \<mapsto> JStr ''gpt-4'']\<rparr>"

definition example_span_gpt4 :: span where
  "example_span_gpt4 =
     \<lparr>name = Some ''ai.streamText.doStream'',
      attributes = [''ai.model.id'' \<mapsto> JStr ''gpt-4'']\<rparr>"




section \<open>Properties of the parser\<close>

lemma split_not_empty: "split sep s \<noteq> []"
  by (cases s) (auto split: list.splits)

lemma length_split: "length (split sep s) = Suc (length (filter (\<lambda>c. c = sep) s))"
  by (induction s) (auto split: list.splits simp: split_not_empty)

lemma parse_not_four:
  assumes "length (split (CHR ''-'') h) \<noteq> 4"
  shows "parse_traceparent (Some h) = initial_vars"
  using assms by (simp add: parse_traceparent_def Let_def)

lemma parse_four:
  assumes "length (split (CHR ''-'') h) = 4"
  shows "parse_traceparent (Some h) =
           \<lparr>parentTraceId = Some (split (CHR ''-'') h ! 1),
            parentSpanId = Some (split (CHR ''-'') h ! 2),
            sampled = (split (CHR ''-'') h ! 3 = ''01'')\<rparr>"
proof -
  from assms have "h \<noteq> []" by auto
  with assms show ?thesis by (simp add: parse_traceparent_def Let_def)
qed

lemma parentContext_initial: "parentContext initial_vars = None"
  by (simp add: parentContext_def initial_vars_def truthy_str_def)

text \<open>
  C3. A header whose split on the hyphen has a number of segments other than 4, and an
  absent header, leave both identifiers undefined and \<open>sampled\<close> at its initial value,
  so nothing is extracted in part and no parent context is built. With exactly 4
  segments the second and third segment are taken as they are, whatever they contain:
  the count of segments is the only check of the parser.
\<close>

theorem importer_segment_count:
  "parse_traceparent None = \<lparr>parentTraceId = None, parentSpanId = None, sampled = True\<rparr>
   \<and> parentContext (parse_traceparent None) = None
   \<and> (length (split (CHR ''-'') h) \<noteq> 4 \<longrightarrow>
        parse_traceparent (Some h)
          = \<lparr>parentTraceId = None, parentSpanId = None, sampled = True\<rparr>
        \<and> parentContext (parse_traceparent (Some h)) = None)
   \<and> (length (split (CHR ''-'') h) = 4 \<longrightarrow>
        parentTraceId (parse_traceparent (Some h)) = Some (split (CHR ''-'') h ! 1)
        \<and> parentSpanId (parse_traceparent (Some h)) = Some (split (CHR ''-'') h ! 2))"
proof -
  have absent: "parse_traceparent None = initial_vars"
    by (simp add: parse_traceparent_def)
  show ?thesis
    using absent parentContext_initial parse_not_four [of h] parse_four [of h]
    by (auto simp: initial_vars_def)
qed

theorem importer_segment_count_witness:
  "length (split (CHR ''-'') ''00-abc'') \<noteq> 4
   \<and> parse_traceparent (Some ''00-abc'')
       = \<lparr>parentTraceId = None, parentSpanId = None, sampled = True\<rparr>
   \<and> parentContext (parse_traceparent (Some ''00-abc'')) = None
   \<and> length (split (CHR ''-'') ''zz-!-?x-7'') = 4
   \<and> parentTraceId (parse_traceparent (Some ''zz-!-?x-7'')) = Some ''!''
   \<and> parentSpanId (parse_traceparent (Some ''zz-!-?x-7'')) = Some ''?x''"
proof -
  have two: "length (split (CHR ''-'') ''00-abc'') \<noteq> 4" by simp
  have four: "split (CHR ''-'') ''zz-!-?x-7'' = [''zz'', ''!'', ''?x'', ''7'']" by simp
  have len: "length (split (CHR ''-'') ''zz-!-?x-7'') = 4" by (simp only: four) simp
  from importer_segment_count [of "''00-abc''"] two
  have a: "parse_traceparent (Some ''00-abc'')
             = \<lparr>parentTraceId = None, parentSpanId = None, sampled = True\<rparr>
           \<and> parentContext (parse_traceparent (Some ''00-abc'')) = None"
    by blast
  from importer_segment_count [of "''zz-!-?x-7''"] len
  have b: "parentTraceId (parse_traceparent (Some ''zz-!-?x-7''))
             = Some (split (CHR ''-'') ''zz-!-?x-7'' ! 1)
           \<and> parentSpanId (parse_traceparent (Some ''zz-!-?x-7''))
             = Some (split (CHR ''-'') ''zz-!-?x-7'' ! 2)"
    by blast
  from b have b': "parentTraceId (parse_traceparent (Some ''zz-!-?x-7'')) = Some ''!''
           \<and> parentSpanId (parse_traceparent (Some ''zz-!-?x-7'')) = Some ''?x''"
    by (simp only: four) simp
  from two a len b' show ?thesis by blast
qed

text \<open>
  C4. With exactly 4 segments, \<open>sampled\<close> is true exactly when the fourth segment is
  the string \<open>01\<close>. The header of the specification gives the trace identifier
  \<open>4bf92f3577b34da6a3ce929d0e0e4736\<close>, the span identifier \<open>00f067aa0ba902b7\<close> and
  \<open>sampled = true\<close>; with the flags \<open>00\<close> it gives \<open>sampled = false\<close> and the same
  identifiers.
\<close>

theorem sampled_iff_flags_01:
  "(length (split (CHR ''-'') h) = 4 \<longrightarrow>
      sampled (parse_traceparent (Some h)) = (split (CHR ''-'') h ! 3 = ''01''))
   \<and> parse_traceparent (Some ''00-4bf92f3577b34da6a3ce929d0e0e4736-00f067aa0ba902b7-01'')
       = \<lparr>parentTraceId = Some ''4bf92f3577b34da6a3ce929d0e0e4736'',
          parentSpanId = Some ''00f067aa0ba902b7'', sampled = True\<rparr>
   \<and> parse_traceparent (Some ''00-4bf92f3577b34da6a3ce929d0e0e4736-00f067aa0ba902b7-00'')
       = \<lparr>parentTraceId = Some ''4bf92f3577b34da6a3ce929d0e0e4736'',
          parentSpanId = Some ''00f067aa0ba902b7'', sampled = False\<rparr>"
proof -
  have s1: "split (CHR ''-'') ''00-4bf92f3577b34da6a3ce929d0e0e4736-00f067aa0ba902b7-01''
              = [''00'', ''4bf92f3577b34da6a3ce929d0e0e4736'', ''00f067aa0ba902b7'', ''01'']"
    by simp
  have s0: "split (CHR ''-'') ''00-4bf92f3577b34da6a3ce929d0e0e4736-00f067aa0ba902b7-00''
              = [''00'', ''4bf92f3577b34da6a3ce929d0e0e4736'', ''00f067aa0ba902b7'', ''00'']"
    by simp
  have e1: "parse_traceparent (Some ''00-4bf92f3577b34da6a3ce929d0e0e4736-00f067aa0ba902b7-01'')
       = \<lparr>parentTraceId = Some ''4bf92f3577b34da6a3ce929d0e0e4736'',
          parentSpanId = Some ''00f067aa0ba902b7'', sampled = True\<rparr>"
    by (subst parse_four) (simp_all only: s1, simp_all)
  have e0: "parse_traceparent (Some ''00-4bf92f3577b34da6a3ce929d0e0e4736-00f067aa0ba902b7-00'')
       = \<lparr>parentTraceId = Some ''4bf92f3577b34da6a3ce929d0e0e4736'',
          parentSpanId = Some ''00f067aa0ba902b7'', sampled = False\<rparr>"
    by (subst parse_four) (simp_all only: s0, simp_all)
  show ?thesis using parse_four [of h] e1 e0 by simp
qed

theorem sampled_iff_flags_01_witness:
  "length (split (CHR ''-'') ''00-a-b-01'') = 4
   \<and> sampled (parse_traceparent (Some ''00-a-b-01''))
   \<and> length (split (CHR ''-'') ''00-a-b-1'') = 4
   \<and> \<not> sampled (parse_traceparent (Some ''00-a-b-1''))"
proof -
  have y: "split (CHR ''-'') ''00-a-b-01'' = [''00'', ''a'', ''b'', ''01'']" by simp
  have n: "split (CHR ''-'') ''00-a-b-1'' = [''00'', ''a'', ''b'', ''1'']" by simp
  have ly: "length (split (CHR ''-'') ''00-a-b-01'') = 4" by (simp only: y) simp
  have ln: "length (split (CHR ''-'') ''00-a-b-1'') = 4" by (simp only: n) simp
  from sampled_iff_flags_01 [of "''00-a-b-01''"] ly
  have "sampled (parse_traceparent (Some ''00-a-b-01''))
          = (split (CHR ''-'') ''00-a-b-01'' ! 3 = ''01'')" by blast
  then have sy: "sampled (parse_traceparent (Some ''00-a-b-01''))"
    by (simp only: y) simp
  from sampled_iff_flags_01 [of "''00-a-b-1''"] ln
  have "sampled (parse_traceparent (Some ''00-a-b-1''))
          = (split (CHR ''-'') ''00-a-b-1'' ! 3 = ''01'')" by blast
  then have sn: "\<not> sampled (parse_traceparent (Some ''00-a-b-1''))"
    by (simp only: n) simp
  from ly sy ln sn show ?thesis by blast
qed

section \<open>Properties of the patch\<close>

lemma install_success:
  assumes "parentContext v = Some pc" and "context_active api s0 = Inr ambient"
    and "locate api = Some r" and "store api r = Some cm" and "with_op cm = Some w"
  shows "install_patch v s0 api =
           Inr (api\<lparr>store := (store api)(r \<mapsto>
                  cm\<lparr>active := patched_active (active cm) (setSpanContext ambient pc)\<rparr>)\<rparr>)"
  using assms by (simp add: install_patch_def Let_def)

lemma install_no_parent:
  assumes "parentContext v = None"
  shows "install_patch v s0 api = Inr api"
  using assms by (simp add: install_patch_def)


lemma install_without_with:
  assumes "context_active api s0 = Inr ambient"
    and "locate api = Some r" and "store api r = Some cm" and "with_op cm = None"
  shows "install_patch v s0 api = Inr api"
  using assms by (simp add: install_patch_def Let_def split: option.splits)

lemma install_changes_only_with_parent:
  assumes "install_patch v s0 api \<noteq> Inr api"
  shows "parentContext v \<noteq> None"
  using assms by (cases "parentContext v") (simp_all add: install_patch_def)

lemma install_frame:
  assumes "install_patch v s0 api = Inr api'"
  shows "private_getContextManager api' = private_getContextManager api
   \<and> private_contextManager api' = private_contextManager api
   \<and> map_option with_op (store api' r) = map_option with_op (store api r)
   \<and> map_option context_manager.more (store api' r)
       = map_option context_manager.more (store api r)
   \<and> (locate api \<noteq> Some r \<longrightarrow> store api' r = store api r)"
  using assms
  by (auto simp: install_patch_def Let_def split: option.splits sum.splits if_splits)

lemma api_after_cases:
  "(\<exists>e. install_patch (parse_traceparent (env ''TRACEPARENT'')) s0 api = Inl e
         \<and> api_after (createSentryPlugin env s0 api client) = api)
   \<or> install_patch (parse_traceparent (env ''TRACEPARENT'')) s0 api
        = Inr (api_after (createSentryPlugin env s0 api client))"
  by (cases "install_patch (parse_traceparent (env ''TRACEPARENT'')) s0 api")
     (simp_all add: createSentryPlugin_def Let_def)

lemma parentContext_four:
  assumes "split (CHR ''-'') h = [ver, tid, sid, flags]" and "tid \<noteq> []" and "sid \<noteq> []"
  shows "parentContext (parse_traceparent (Some h)) =
           Some \<lparr>traceId = tid, spanId = sid,
                 traceFlags = (if flags = ''01'' then SAMPLED else NONE), isRemote = True\<rparr>"
proof -
  from assms(1) have "length (split (CHR ''-'') h) = 4" by simp
  from parse_four [OF this] assms show ?thesis
    by (simp add: parentContext_def truthy_str_def)
qed

lemma parentContext_empty_id:
  assumes "split (CHR ''-'') h = [ver, tid, sid, flags]" and "tid = [] \<or> sid = []"
  shows "parentContext (parse_traceparent (Some h)) = None"
proof -
  from assms(1) have "length (split (CHR ''-'') h) = 4" by simp
  from parse_four [OF this] assms show ?thesis
    by (auto simp: parentContext_def truthy_str_def)
qed

lemma parentContext_Some_iff:
  "parentContext v \<noteq> None \<longleftrightarrow>
     (\<exists>t s. parentTraceId v = Some t \<and> t \<noteq> [] \<and> parentSpanId v = Some s \<and> s \<noteq> [])"
  by (auto simp: parentContext_def truthy_str_def split: option.splits)

text \<open>
  When the header has four segments with non-empty identifiers, the call of line 175
  returns and the located manager has a \<open>with\<close>, the plugin stores the wrapper in
  that manager, changes nothing else and raises nothing.
\<close>

lemma plugin_installs:
  assumes "env ''TRACEPARENT'' = Some h"
    and "split (CHR ''-'') h = [ver, tid, sid, flags]"
    and "tid \<noteq> []" and "sid \<noteq> []"
    and "context_active api s0 = Inr ambient"
    and "locate api = Some r" and "store api r = Some cm" and "with_op cm = Some w"
  shows "createSentryPlugin env s0 api client =
          \<lparr>api_after =
             api\<lparr>store := (store api)(r \<mapsto>
                  cm\<lparr>active := patched_active (active cm) (setSpanContext ambient
                     \<lparr>traceId = tid, spanId = sid,
                      traceFlags = (if flags = ''01'' then SAMPLED else NONE),
                      isRemote = True\<rparr>)\<rparr>)\<rparr>,
           client_handlers = (if client then [(''spanStart'', spanStart)] else []),
           raised = None\<rparr>"
  using install_success [OF parentContext_four [OF assms(2-4)] assms(5-8)] assms(1)
  by (simp add: createSentryPlugin_def Let_def)

text \<open>
  A manager that \<open>_getContextManager\<close> returns and that has no \<open>with\<close>: nothing is
  replaced, nothing is raised and the spanStart handler is registered, whatever the
  header.
\<close>

lemma patch_skipped_when_with_missing:
  assumes "private_getContextManager api = Some (Some r)"
    and "store api r = Some cm" and "with_op cm = None"
  shows "createSentryPlugin env s0 api client
           = \<lparr>api_after = api,
              client_handlers = (if client then [(''spanStart'', spanStart)] else []),
              raised = None\<rparr>"
proof -
  have act: "context_active api s0 = Inr (active cm s0)"
    using assms by (simp add: context_active_def)
  have loc: "locate api = Some r"
    using assms by (simp add: locate_def)
  have "install_patch (parse_traceparent (env ''TRACEPARENT'')) s0 api = Inr api"
    using act loc assms(2,3) by (rule install_without_with)
  then show ?thesis by (simp add: createSentryPlugin_def Let_def)
qed


lemma split_example: "split (CHR ''-'') ''00-ab-cd-01'' = [''00'', ''ab'', ''cd'', ''01'']"
  by simp

lemma locate_example: "locate example_api = Some 0"
  by (simp add: locate_def example_api_def)

lemma store_example:
  "store example_api 0 = Some \<lparr>active = example_active, with_op = Some ''with''\<rparr>"
  by (simp add: example_api_def)

lemma active_example: "context_active example_api s0 = Inr (example_active s0)"
  by (simp add: context_active_def example_api_def)

text \<open>
  C1. After the patch is installed (a header of four segments with non-empty
  identifiers, the call \<open>otel.context.active()\<close> of line 175 returning a context, a
  located manager with a \<open>with\<close>), nothing has been raised, and a call of the
  manager's \<open>active\<close> in any ambient state where the original \<open>active\<close> returns a
  context without a span returns the root context: the context of line 175 with the
  span context built from the imported trace identifier, span identifier and sampling
  flag. The trace identifier of its span is the imported one.
\<close>

theorem patched_active_falls_back_to_root:
  assumes "env ''TRACEPARENT'' = Some h"
    and "split (CHR ''-'') h = [ver, tid, sid, flags]"
    and "tid \<noteq> []" and "sid \<noteq> []"
    and "context_active api s0 = Inr ambient"
    and "locate api = Some r" and "store api r = Some cm" and "with_op cm = Some w"
    and "getSpan (active cm s) = None"
  shows "raised (createSentryPlugin env s0 api client) = None
         \<and> call_active (api_after (createSentryPlugin env s0 api client)) r s
           = Some (setSpanContext ambient
                    \<lparr>traceId = tid, spanId = sid,
                     traceFlags = (if flags = ''01'' then SAMPLED else NONE),
                     isRemote = True\<rparr>)
         \<and> map_option (\<lambda>c. map_option (\<lambda>sp. traceId (spanContext sp)) (getSpan c))
             (call_active (api_after (createSentryPlugin env s0 api client)) r s)
           = Some (Some tid)"
  using plugin_installs [where env = env, OF assms(1-8)] assms(9)
  by (simp add: call_active_def patched_active_def Let_def getSpan_def setSpanContext_def)

theorem patched_active_falls_back_to_root_witness:
  "getSpan (example_active False) = None
   \<and> raised (createSentryPlugin [''TRACEPARENT'' \<mapsto> ''00-ab-cd-01''] False
                example_api True) = None
   \<and> call_active
       (api_after (createSentryPlugin [''TRACEPARENT'' \<mapsto> ''00-ab-cd-01''] False
                     example_api True)) 0 False
     = Some \<lparr>span_value = Some (NonRecordingSpan \<lparr>traceId = ''ab'', spanId = ''cd'',
                                     traceFlags = SAMPLED, isRemote = True\<rparr>),
             other_values = [(''k'', ''v'')]\<rparr>"
proof -
  have no_span: "getSpan (active \<lparr>active = example_active, with_op = Some ''with''\<rparr> False) = None"
    by (simp add: getSpan_def example_active_def)
  have "raised (createSentryPlugin [''TRACEPARENT'' \<mapsto> ''00-ab-cd-01''] False
                example_api True) = None
     \<and> call_active
       (api_after (createSentryPlugin [''TRACEPARENT'' \<mapsto> ''00-ab-cd-01''] False
                     example_api True)) 0 False
     = Some (setSpanContext (example_active False)
               \<lparr>traceId = ''ab'', spanId = ''cd'',
                traceFlags = (if ''01'' = ''01'' then SAMPLED else NONE), isRemote = True\<rparr>)"
    using patched_active_falls_back_to_root
      [where env = "[''TRACEPARENT'' \<mapsto> ''00-ab-cd-01'']" and client = True,
       OF _ split_example _ _ active_example locate_example store_example _ no_span]
    by simp
  then show ?thesis
    by (simp add: setSpanContext_def getSpan_def example_active_def)
qed

text \<open>
  C2. After the patch is installed, a call of the manager's \<open>active\<close> in an ambient
  state where the original \<open>active\<close> returns a context that holds a span returns that
  very context, as the unpatched manager does, and not the root context of the remote
  parent.
\<close>

theorem patched_active_keeps_active_span:
  assumes "env ''TRACEPARENT'' = Some h"
    and "split (CHR ''-'') h = [ver, tid, sid, flags]"
    and "tid \<noteq> []" and "sid \<noteq> []"
    and "context_active api s0 = Inr ambient"
    and "locate api = Some r" and "store api r = Some cm" and "with_op cm = Some w"
    and "getSpan (active cm s) = Some sp"
  shows "raised (createSentryPlugin env s0 api client) = None
         \<and> call_active (api_after (createSentryPlugin env s0 api client)) r s
           = Some (active cm s)
         \<and> call_active (api_after (createSentryPlugin env s0 api client)) r s
           = call_active api r s"
  using plugin_installs [where env = env, OF assms(1-8)] assms(7,9)
  by (simp add: call_active_def patched_active_def Let_def)

theorem patched_active_keeps_active_span_witness:
  "getSpan (example_active True) = Some example_span
   \<and> call_active
       (api_after (createSentryPlugin [''TRACEPARENT'' \<mapsto> ''00-ab-cd-01''] False
                     example_api True)) 0 True
     = Some \<lparr>span_value = Some example_span, other_values = [(''k'', ''v'')]\<rparr>"
proof -
  have has_span:
    "getSpan (active \<lparr>active = example_active, with_op = Some ''with''\<rparr> True) = Some example_span"
    by (simp add: getSpan_def example_active_def)
  have "call_active
       (api_after (createSentryPlugin [''TRACEPARENT'' \<mapsto> ''00-ab-cd-01''] False
                     example_api True)) 0 True
     = Some (active \<lparr>active = example_active, with_op = Some ''with''\<rparr> True)"
    using patched_active_keeps_active_span
      [where env = "[''TRACEPARENT'' \<mapsto> ''00-ab-cd-01'']" and client = True,
       OF _ split_example _ _ active_example locate_example store_example _ has_span]
    by simp
  then show ?thesis by (simp add: getSpan_def example_active_def)
qed


text \<open>
  C6. Installing the patch changes at most the \<open>active\<close> field of the located
  manager: the \<open>with\<close> field and every further field of every manager are as before,
  every manager other than the located one is as before, and so are the two fields of
  the API object that refer to the managers. This holds of every run, also of one that
  raises.
\<close>

theorem patch_replaces_only_active:
  "private_getContextManager (api_after (createSentryPlugin env s0 api client))
     = private_getContextManager api
   \<and> private_contextManager (api_after (createSentryPlugin env s0 api client))
     = private_contextManager api
   \<and> (\<forall>r. map_option with_op (store (api_after (createSentryPlugin env s0 api client)) r)
            = map_option with_op (store api r))
   \<and> (\<forall>r. map_option context_manager.more
              (store (api_after (createSentryPlugin env s0 api client)) r)
            = map_option context_manager.more (store api r))
   \<and> (\<forall>r. locate api \<noteq> Some r \<longrightarrow>
            store (api_after (createSentryPlugin env s0 api client)) r = store api r)"
  using api_after_cases [of env s0 api client]
proof
  assume "\<exists>e. install_patch (parse_traceparent (env ''TRACEPARENT'')) s0 api = Inl e
               \<and> api_after (createSentryPlugin env s0 api client) = api"
  then show ?thesis by auto
next
  assume "install_patch (parse_traceparent (env ''TRACEPARENT'')) s0 api
            = Inr (api_after (createSentryPlugin env s0 api client))"
  from install_frame [OF this] show ?thesis by blast
qed

theorem patch_replaces_only_active_witness:
  "map_option with_op
     (store (api_after (createSentryPlugin [''TRACEPARENT'' \<mapsto> ''00-ab-cd-01'']
                          False example_api True)) 0) = Some (Some ''with'')
   \<and> locate example_api \<noteq> Some 1
   \<and> store (api_after (createSentryPlugin [''TRACEPARENT'' \<mapsto> ''00-ab-cd-01'']
                          False example_api True)) 1
       = Some \<lparr>active = example_active, with_op = None\<rparr>
   \<and> call_active (api_after (createSentryPlugin [''TRACEPARENT'' \<mapsto> ''00-ab-cd-01'']
                          False example_api True)) 0 False
       \<noteq> call_active example_api 0 False"
proof -
  have changed: "call_active (api_after (createSentryPlugin [''TRACEPARENT'' \<mapsto> ''00-ab-cd-01'']
                          False example_api True)) 0 False
       \<noteq> call_active example_api 0 False"
    using plugin_installs [where env = "[''TRACEPARENT'' \<mapsto> ''00-ab-cd-01'']"
        and client = True,
        OF _ split_example _ _ active_example locate_example store_example]
    by (simp add: call_active_def patched_active_def Let_def getSpan_def example_active_def
          setSpanContext_def store_example)
  show ?thesis
    using patch_replaces_only_active [of "[''TRACEPARENT'' \<mapsto> ''00-ab-cd-01'']"
              False example_api True] locate_example changed
    by (simp add: example_api_def)
qed

text \<open>
  C10. The parent context is built and the patch installed only when the parsed trace
  identifier and span identifier are both non-empty. A header of four segments whose
  trace or span identifier is empty passes the count of segments, so both variables are
  assigned, yet no parent context is built, the API object stays as it was, nothing is
  raised, and the plugin's result is the one it has without any header.
\<close>

theorem empty_id_installs_nothing:
  assumes "split (CHR ''-'') h = [ver, tid, sid, flags]" and "tid = [] \<or> sid = []"
  shows "length (split (CHR ''-'') h) = 4
         \<and> parentTraceId (parse_traceparent (Some h)) = Some tid
         \<and> parentSpanId (parse_traceparent (Some h)) = Some sid
         \<and> parentContext (parse_traceparent (Some h)) = None
         \<and> api_after (createSentryPlugin (env(''TRACEPARENT'' \<mapsto> h)) s0 api client) = api
         \<and> raised (createSentryPlugin (env(''TRACEPARENT'' \<mapsto> h)) s0 api client) = None
         \<and> createSentryPlugin (env(''TRACEPARENT'' \<mapsto> h)) s0 api client
             = createSentryPlugin (env(''TRACEPARENT'' := None)) s0 api client
         \<and> (parentContext (parse_traceparent (env ''TRACEPARENT'')) \<noteq> None
              \<or> api_after (createSentryPlugin env s0 api client) \<noteq> api
             \<longrightarrow> (\<exists>t s. parentTraceId (parse_traceparent (env ''TRACEPARENT'')) = Some t
                       \<and> t \<noteq> []
                       \<and> parentSpanId (parse_traceparent (env ''TRACEPARENT'')) = Some s
                       \<and> s \<noteq> []))"
proof -
  from assms(1) have len: "length (split (CHR ''-'') h) = 4" by simp
  have none: "parentContext (parse_traceparent (Some h)) = None"
    using assms by (rule parentContext_empty_id)
  have absent: "parentContext (parse_traceparent None) = None"
    by (simp add: parse_traceparent_def parentContext_initial)
  have a: "install_patch (parse_traceparent (Some h)) s0 api = Inr api"
    using none by (rule install_no_parent)
  have b: "install_patch (parse_traceparent None) s0 api = Inr api"
    using absent by (rule install_no_parent)
  have changed: "api_after (createSentryPlugin env s0 api client) \<noteq> api
                 \<Longrightarrow> install_patch (parse_traceparent (env ''TRACEPARENT'')) s0 api \<noteq> Inr api"
    using api_after_cases [of env s0 api client] by auto
  have only: "parentContext (parse_traceparent (env ''TRACEPARENT'')) \<noteq> None
              \<or> api_after (createSentryPlugin env s0 api client) \<noteq> api
             \<longrightarrow> (\<exists>t s. parentTraceId (parse_traceparent (env ''TRACEPARENT'')) = Some t
                       \<and> t \<noteq> []
                       \<and> parentSpanId (parse_traceparent (env ''TRACEPARENT'')) = Some s
                       \<and> s \<noteq> [])"
    using changed
          install_changes_only_with_parent
            [of "parse_traceparent (env ''TRACEPARENT'')" s0 api]
          parentContext_Some_iff [of "parse_traceparent (env ''TRACEPARENT'')"]
    by blast
  from len parse_four [OF len] assms(1) none a b only show ?thesis
    by (simp add: createSentryPlugin_def Let_def)
qed

theorem empty_id_installs_nothing_witness:
  "split (CHR ''-'') ''00--00f067aa0ba902b7-01'' = [''00'', [], ''00f067aa0ba902b7'', ''01'']
   \<and> parentTraceId (parse_traceparent (Some ''00--00f067aa0ba902b7-01'')) = Some []
   \<and> parentContext (parse_traceparent (Some ''00--00f067aa0ba902b7-01'')) = None
   \<and> locate example_api = Some 0
   \<and> api_after (createSentryPlugin [''TRACEPARENT'' \<mapsto> ''00--00f067aa0ba902b7-01'']
                  False example_api True) = example_api
   \<and> createSentryPlugin [''TRACEPARENT'' \<mapsto> ''00--00f067aa0ba902b7-01'']
        False example_api True
       = createSentryPlugin Map.empty False example_api True"
proof -
  have sp: "split (CHR ''-'') ''00--00f067aa0ba902b7-01''
              = [''00'', [], ''00f067aa0ba902b7'', ''01'']" by simp
  have e: "(Map.empty :: string \<rightharpoonup> string)(''TRACEPARENT'' := None) = Map.empty" by simp
  note t = empty_id_installs_nothing
             [OF sp, of Map.empty False example_api True, unfolded e]
  from t sp locate_example show ?thesis by blast
qed

section \<open>Properties of the spanStart handler\<close>

lemma spanStart_other:
  assumes "name sp \<noteq> Some ''ai.streamText.doStream''"
    and "name sp \<noteq> Some ''ai.generateText.doGenerate''"
  shows "spanStart sp = sp"
  using assms by (auto simp: spanStart_def split: option.splits)

lemma spanStart_match:
  assumes "name sp = Some ''ai.streamText.doStream''
           \<or> name sp = Some ''ai.generateText.doGenerate''"
  shows "spanStart sp =
     sp\<lparr>attributes :=
          (\<lambda>k. if k = ''gen_ai.system''
                    \<and> truthy (get_prop (attributes sp) ''ai.model.provider'')
                 then attributes sp ''ai.model.provider''
               else if k = ''gen_ai.request.model''
                    \<and> truthy (get_prop (attributes sp) ''ai.model.id'')
                 then attributes sp ''ai.model.id''
               else if k = ''sentry.op'' then Some (JStr ''gen_ai.chat'')
               else attributes sp k)\<rparr>"
  using assms
  by (auto simp: spanStart_def Let_def setAttribute_def or_js_def get_prop_def fun_eq_iff
      split: option.splits)

text \<open>
  C7, as stated, fails. The span below has the instrumented name, the attribute
  \<open>ai.model.id\<close> present with the empty string as its value, and
  \<open>gen_ai.request.model = gpt-4\<close>. The first present source is \<open>ai.model.id\<close>, so
  the stated rule gives the destination the empty string; the handler, which takes the
  first truthy source (\<open>||\<close>), leaves it at \<open>gpt-4\<close>.
\<close>

theorem spanStart_first_present_counterexample:
  "name example_span_empty_model = Some ''ai.streamText.doStream''
   \<and> attributes example_span_empty_model ''ai.model.id'' = Some (JStr [])
   \<and> first_present_source (attributes example_span_empty_model)
         ''ai.model.id'' ''gen_ai.request.model''
       = Some (JStr [])
   \<and> attributes (spanStart example_span_empty_model) ''gen_ai.request.model''
       = Some (JStr ''gpt-4'')
   \<and> attributes (spanStart example_span_empty_model) ''gen_ai.request.model''
       \<noteq> first_present_source (attributes example_span_empty_model)
            ''ai.model.id'' ''gen_ai.request.model''"
  by (simp add: example_span_empty_model_def first_present_source_def spanStart_def Let_def
        setAttribute_def or_js_def get_prop_def)

text \<open>
  C7, amended. A span named \<open>ai.streamText.doStream\<close> or
  \<open>ai.generateText.doGenerate\<close> keeps its name, gets \<open>sentry.op = gen_ai.chat\<close>, and
  its \<open>gen_ai.request.model\<close> becomes the value of \<open>ai.model.id\<close> when that value
  is truthy and otherwise stays what it was; \<open>gen_ai.system\<close> likewise from
  \<open>ai.model.provider\<close>; no other attribute changes. Where the first source is absent
  or truthy this is the rule "first present source wins, absent sources leave the
  destination unset". A span with any other name, or with none, is returned as it is.
\<close>

theorem spanStart_relabels:
  "(name sp = Some ''ai.streamText.doStream'' \<or> name sp = Some ''ai.generateText.doGenerate''
      \<longrightarrow> name (spanStart sp) = name sp
        \<and> attributes (spanStart sp) ''sentry.op'' = Some (JStr ''gen_ai.chat'')
        \<and> attributes (spanStart sp) ''gen_ai.request.model''
            = (if truthy (get_prop (attributes sp) ''ai.model.id'')
               then attributes sp ''ai.model.id''
               else attributes sp ''gen_ai.request.model'')
        \<and> attributes (spanStart sp) ''gen_ai.system''
            = (if truthy (get_prop (attributes sp) ''ai.model.provider'')
               then attributes sp ''ai.model.provider''
               else attributes sp ''gen_ai.system'')
        \<and> (\<forall>k. k \<noteq> ''sentry.op'' \<and> k \<noteq> ''gen_ai.request.model'' \<and> k \<noteq> ''gen_ai.system''
               \<longrightarrow> attributes (spanStart sp) k = attributes sp k)
        \<and> ((attributes sp ''ai.model.id'' = None
             \<or> truthy (get_prop (attributes sp) ''ai.model.id''))
            \<longrightarrow> attributes (spanStart sp) ''gen_ai.request.model''
                  = first_present_source (attributes sp) ''ai.model.id'' ''gen_ai.request.model'')
        \<and> ((attributes sp ''ai.model.provider'' = None
             \<or> truthy (get_prop (attributes sp) ''ai.model.provider''))
            \<longrightarrow> attributes (spanStart sp) ''gen_ai.system''
                  = first_present_source (attributes sp) ''ai.model.provider'' ''gen_ai.system''))
   \<and> (name sp \<noteq> Some ''ai.streamText.doStream''
        \<and> name sp \<noteq> Some ''ai.generateText.doGenerate''
      \<longrightarrow> spanStart sp = sp)"
proof (cases "name sp = Some ''ai.streamText.doStream''
              \<or> name sp = Some ''ai.generateText.doGenerate''")
  case True
  from spanStart_match [OF True] True show ?thesis
    by (auto simp: first_present_source_def get_prop_def split: option.splits)
next
  case False
  then show ?thesis using spanStart_other [of sp] by blast
qed

theorem spanStart_relabels_witness:
  "attributes (spanStart example_span_gpt4) ''sentry.op'' = Some (JStr ''gen_ai.chat'')
   \<and> attributes (spanStart example_span_gpt4) ''gen_ai.request.model'' = Some (JStr ''gpt-4'')
   \<and> attributes (spanStart example_span_gpt4) ''gen_ai.system'' = None
   \<and> spanStart (example_span_gpt4\<lparr>name := Some ''ai.streamText''\<rparr>)
       = example_span_gpt4\<lparr>name := Some ''ai.streamText''\<rparr>"
proof -
  have n: "name example_span_gpt4 = Some ''ai.streamText.doStream''"
    by (simp add: example_span_gpt4_def)
  have a: "attributes example_span_gpt4 = [''ai.model.id'' \<mapsto> JStr ''gpt-4'']"
    by (simp add: example_span_gpt4_def)
  have m: "name (example_span_gpt4\<lparr>name := Some ''ai.streamText''\<rparr>)
             \<noteq> Some ''ai.streamText.doStream''
           \<and> name (example_span_gpt4\<lparr>name := Some ''ai.streamText''\<rparr>)
               \<noteq> Some ''ai.generateText.doGenerate''"
    by simp
  from spanStart_relabels [of example_span_gpt4] n
  have "attributes (spanStart example_span_gpt4) ''sentry.op'' = Some (JStr ''gen_ai.chat'')
        \<and> attributes (spanStart example_span_gpt4) ''gen_ai.request.model''
            = (if truthy (get_prop (attributes example_span_gpt4) ''ai.model.id'')
               then attributes example_span_gpt4 ''ai.model.id''
               else attributes example_span_gpt4 ''gen_ai.request.model'')
        \<and> attributes (spanStart example_span_gpt4) ''gen_ai.system''
            = (if truthy (get_prop (attributes example_span_gpt4) ''ai.model.provider'')
               then attributes example_span_gpt4 ''ai.model.provider''
               else attributes example_span_gpt4 ''gen_ai.system'')"
    by blast
  then have first:
    "attributes (spanStart example_span_gpt4) ''sentry.op'' = Some (JStr ''gen_ai.chat'')
     \<and> attributes (spanStart example_span_gpt4) ''gen_ai.request.model'' = Some (JStr ''gpt-4'')
     \<and> attributes (spanStart example_span_gpt4) ''gen_ai.system'' = None"
    by (simp add: a get_prop_def)
  from spanStart_relabels [of "example_span_gpt4\<lparr>name := Some ''ai.streamText''\<rparr>"] m
  have "spanStart (example_span_gpt4\<lparr>name := Some ''ai.streamText''\<rparr>)
       = example_span_gpt4\<lparr>name := Some ''ai.streamText''\<rparr>"
    by blast
  with first show ?thesis by blast
qed

section \<open>Properties of the hooks\<close>





lemma Error_truthy: "instanceof_Error e \<Longrightarrow> truthy e"
  by (cases e) simp_all

text \<open>
  C9, as stated, fails. The metadata below carries an error field whose value is the
  empty string, a value that is not an exception. The claim has one exception captured,
  with the empty message; the hook tests the value for truthiness (\<open>if (error)\<close>) and
  captures nothing.
\<close>

theorem tool_error_falsy_counterexample:
  "\<not> instanceof_Error (JStr [])
   \<and> opt_get (metadata \<lparr>metadata = Some [''error'' \<mapsto> JStr []]\<rparr>) ''error'' = JStr []
   \<and> tool_execute_after \<lparr>tool = ''bash''\<rparr> \<lparr>metadata = Some [''error'' \<mapsto> JStr []]\<rparr> = []
   \<and> tool_execute_after \<lparr>tool = ''bash''\<rparr> \<lparr>metadata = Some [''error'' \<mapsto> JStr []]\<rparr>
       \<noteq> [CaptureException (JError (String_js (JStr [])))
            [(''source'', ''tool.execute''), (''tool'', ''bash'')]]"
  by (simp add: tool_execute_after_def opt_get_def get_prop_def)

text \<open>
  C9, amended. The hook for tool.execute.after captures nothing when the metadata is
  missing, has no error field, or has a falsy error value (\<open>undefined\<close>, \<open>null\<close>,
  \<open>false\<close>, 0, the empty string). For a truthy error value that is not an exception
  it captures exactly one exception, whose message is the value converted to a string;
  an error value that is an exception is captured as it is. Both captures carry the
  tags source = tool.execute and tool = the tool's name.
\<close>

theorem tool_error_capture:
  "((metadata output = None \<or> (\<exists>m. metadata output = Some m \<and> m ''error'' = None))
      \<longrightarrow> tool_execute_after input output = [])
   \<and> (\<forall>m e. metadata output = Some m \<and> m ''error'' = Some e \<longrightarrow>
         (\<not> truthy e \<longrightarrow> tool_execute_after input output = [])
       \<and> (truthy e \<and> \<not> instanceof_Error e \<longrightarrow>
            tool_execute_after input output
              = [CaptureException (JError (String_js e))
                   [(''source'', ''tool.execute''), (''tool'', tool input)]])
       \<and> (instanceof_Error e \<longrightarrow>
            tool_execute_after input output
              = [CaptureException e [(''source'', ''tool.execute''), (''tool'', tool input)]]))"
  by (auto simp: tool_execute_after_def opt_get_def get_prop_def to_exception_def Let_def
        dest: Error_truthy split: option.splits)

theorem tool_error_capture_witness:
  "tool_execute_after \<lparr>tool = ''bash''\<rparr> \<lparr>metadata = Some Map.empty\<rparr> = []
   \<and> tool_execute_after \<lparr>tool = ''bash''\<rparr> \<lparr>metadata = Some [''error'' \<mapsto> JStr ''boom'']\<rparr>
       = [CaptureException (JError ''boom'') [(''source'', ''tool.execute''), (''tool'', ''bash'')]]
   \<and> tool_execute_after \<lparr>tool = ''bash''\<rparr> \<lparr>metadata = Some [''error'' \<mapsto> JError ''E'']\<rparr>
       = [CaptureException (JError ''E'') [(''source'', ''tool.execute''), (''tool'', ''bash'')]]"
proof -
  have a: "tool_execute_after \<lparr>tool = ''bash''\<rparr> \<lparr>metadata = Some Map.empty\<rparr> = []"
    using tool_error_capture [of "\<lparr>metadata = Some Map.empty\<rparr>" "\<lparr>tool = ''bash''\<rparr>"]
    by simp
  have b: "tool_execute_after \<lparr>tool = ''bash''\<rparr>
             \<lparr>metadata = Some [''error'' \<mapsto> JStr ''boom'']\<rparr>
       = [CaptureException (JError ''boom'') [(''source'', ''tool.execute''), (''tool'', ''bash'')]]"
    using tool_error_capture [of "\<lparr>metadata = Some [''error'' \<mapsto> JStr ''boom'']\<rparr>"
                                 "\<lparr>tool = ''bash''\<rparr>"]
    by simp
  have c: "tool_execute_after \<lparr>tool = ''bash''\<rparr>
             \<lparr>metadata = Some [''error'' \<mapsto> JError ''E'']\<rparr>
       = [CaptureException (JError ''E'') [(''source'', ''tool.execute''), (''tool'', ''bash'')]]"
    using tool_error_capture [of "\<lparr>metadata = Some [''error'' \<mapsto> JError ''E'']\<rparr>"
                                 "\<lparr>tool = ''bash''\<rparr>"]
    by simp
  from a b c show ?thesis by blast
qed

end
